theory Spec2Isabelle
  imports Main "HOL-Library.Multiset" "HOL-Library.Sublist"
begin

section \<open>Identifiers, instants and errors\<close>

text \<open>
  Primary keys and card ids are Python integers. An instant is a \<open>datetime\<close>, counted in
  microseconds; a \<open>timedelta(seconds=s)\<close> is \<open>s * 1000000\<close> of them.
\<close>

type_synonym card_id = int
type_synonym player_id = int
type_synonym game_id = int
type_synonym instant = int

text \<open>
  The first twelve constructors are the classes of \<open>game/errors.py\<close>. The others are the
  exceptions of Python and of the object-relational mapper that the modelled code can raise;
  they are no \<open>CAHError\<close>.
\<close>

datatype error =
    GameIsFullError
  | GameFinishedError
  | GameNotStartedError
  | NotEnoughPlayersError
  | PlayerNotInGameError
  | PermissionDeniedError
  | NotEnoughCardsError
  | CardNotInDequeError
  | CardDoesNotExistError
  | CardIsNotOnTableError
  | PlayerDoesNotHaveCardError
  | PlayerHasAlreadyPlayed
  | ObjectDoesNotExist
  | MultipleObjectsReturned
  | AttributeError
  | TypeError
  | IndexError
  | ValueError
  | RecursionError

section \<open>Deque\<close>

text \<open>
  \<open>class Deque\<close>: the text fields \<open>cards\<close> and \<open>deque\<close> hold JSON lists of card ids and are
  only read through \<open>json.loads\<close> and written through \<open>json.dumps\<close>, so each is modelled
  by the list it encodes. \<open>size\<close> is an integer.
\<close>

record Deque =
  dq_cards :: "card_id list"
  dq_deque :: "card_id list"
  dq_size :: int

text \<open>\<open>Deque.objects.create()\<close>: both lists empty, size 0.\<close>

definition Deque_create :: Deque where
  "Deque_create = \<lparr>dq_cards = [], dq_deque = [], dq_size = 0\<rparr>"

text \<open>
  A \<open>collections.Counter\<close> maps each key to a positive count: it is a multiset.
  \<open>Counter(xs)\<close> is \<open>mset xs\<close>, \<open>element in counter\<close> is \<open>element \<in># counter\<close>, and
  \<open>len(counter)\<close> is the number of distinct keys.
\<close>

definition counter_len :: "card_id multiset \<Rightarrow> nat" where
  "counter_len counter = card (set_mset counter)"

text \<open>
  The local function \<open>try_pop\<close> of \<open>_remove_cards\<close>: \<open>False\<close> when the element is no key;
  otherwise one occurrence less (the key deleted at count 0) and \<open>True\<close>.
\<close>

definition try_pop :: "card_id multiset \<Rightarrow> card_id \<Rightarrow> bool \<times> card_id multiset" where
  "try_pop counter element =
     (if element \<notin># counter then (False, counter)
      else (True, counter - {#element#}))"

text \<open>
  The list comprehension \<open>[card for card in current_cards if not try_pop(cards_to_remove, card)]\<close>,
  which updates the counter while it filters: the result is the kept cards and the counter left.
\<close>

fun remove_loop :: "card_id multiset \<Rightarrow> card_id list \<Rightarrow> card_id list \<times> card_id multiset" where
  "remove_loop counter [] = ([], counter)"
| "remove_loop counter (c # current_cards) =
     (case try_pop counter c of
        (True, counter') \<Rightarrow> remove_loop counter' current_cards
      | (False, counter') \<Rightarrow>
          (case remove_loop counter' current_cards of
             (new_cards, counter'') \<Rightarrow> (c # new_cards, counter'')))"

text \<open>
  \<open>Deque._remove_cards\<close>. \<open>num_cards_to_remove\<close> is \<open>len\<close> of the Counter, taken before the
  loop. The exception is raised before any field is assigned.
\<close>

definition remove_cards :: "card_id list \<Rightarrow> Deque \<Rightarrow> error + Deque" where
  "remove_cards cards_to_remove self =
     (let counter = mset cards_to_remove;
          current_cards = dq_cards self;
          num_cards_to_remove = counter_len counter
      in case remove_loop counter current_cards of
           (new_cards, counter') \<Rightarrow>
             if counter_len counter' \<noteq> 0 then Inl CardNotInDequeError
             else Inr (self\<lparr>dq_size := dq_size self - int num_cards_to_remove,
                             dq_cards := new_cards\<rparr>))"

text \<open>\<open>Deque.add_cards\<close>.\<close>

definition add_cards :: "card_id list \<Rightarrow> Deque \<Rightarrow> Deque" where
  "add_cards new_cards self =
     self\<lparr>dq_size := dq_size self + int (length new_cards),
          dq_cards := dq_cards self @ new_cards\<rparr>"

text \<open>
  \<open>random.shuffle\<close> is the standard library's loop
  \<open>for i in reversed(range(1, len(x))): j = randbelow(i + 1); x[i], x[j] = x[j], x[i]\<close>.
  The random source is a list of naturals \<open>rng\<close>, read from its head; \<open>randbelow(k)\<close> is the
  next one modulo \<open>k\<close> (0 once the list is used up), so every outcome of the generator is the
  outcome for some list.
\<close>

type_synonym rng = "nat list"

definition randbelow :: "nat \<Rightarrow> rng \<Rightarrow> nat \<times> rng" where
  "randbelow k rs = (case rs of [] \<Rightarrow> (0, []) | r # rs' \<Rightarrow> (r mod k, rs'))"

fun shuffle_loop :: "nat \<Rightarrow> 'a list \<Rightarrow> rng \<Rightarrow> 'a list \<times> rng" where
  "shuffle_loop 0 x rs = (x, rs)"
| "shuffle_loop (Suc i) x rs =
     (case randbelow (Suc i + 1) rs of
        (j, rs') \<Rightarrow> shuffle_loop i (x[Suc i := x ! j, j := x ! Suc i]) rs')"

definition random_shuffle :: "'a list \<Rightarrow> rng \<Rightarrow> 'a list \<times> rng" where
  "random_shuffle x rs = shuffle_loop (length x - 1) x rs"

text \<open>\<open>Deque.shuffle\<close>: the draw order becomes a shuffled copy of the pool.\<close>

definition shuffle :: "rng \<Rightarrow> Deque \<Rightarrow> Deque \<times> rng" where
  "shuffle rs self =
     (case random_shuffle (dq_cards self) rs of
        (new_deque, rs') \<Rightarrow> (self\<lparr>dq_deque := new_deque\<rparr>, rs'))"

text \<open>
  Python slices \<open>xs[:n]\<close> and \<open>xs[n:]\<close>: a negative bound counts from the end, and bounds
  outside the list are clamped.
\<close>

definition slice_to :: "int \<Rightarrow> 'a list \<Rightarrow> 'a list" where
  "slice_to n xs = take (nat (if n < 0 then int (length xs) + n else n)) xs"

definition slice_from :: "int \<Rightarrow> 'a list \<Rightarrow> 'a list" where
  "slice_from n xs = drop (nat (if n < 0 then int (length xs) + n else n)) xs"

text \<open>
  \<open>Deque.draw_cards\<close>. The method calls itself, and nothing in it bounds the depth, so the
  model takes fuel (the depth still allowed): \<open>None\<close> means the fuel ran out. A result is the
  outcome (the exception raised or the list returned), the Deque as the call leaves it, and
  the rest of the random source.
\<close>

fun draw_cards :: "nat \<Rightarrow> int \<Rightarrow> rng \<Rightarrow> Deque \<Rightarrow> ((error + card_id list) \<times> Deque \<times> rng) option" where
  "draw_cards 0 num_cards rs self = None"
| "draw_cards (Suc fuel) num_cards rs self =
     (if num_cards > dq_size self then Some (Inl NotEnoughCardsError, self, rs)
      else
        let deque = dq_deque self in
        if int (length deque) > num_cards then
          (let drawn_cards = slice_to num_cards deque in
           case remove_cards drawn_cards self of
             Inl e \<Rightarrow> Some (Inl e, self, rs)
           | Inr self1 \<Rightarrow>
               Some (Inr drawn_cards, self1\<lparr>dq_deque := slice_from num_cards deque\<rparr>, rs))
        else
          (let drawn_cards = deque in
           case remove_cards drawn_cards self of
             Inl e \<Rightarrow> Some (Inl e, self, rs)
           | Inr self1 \<Rightarrow>
               (case shuffle rs self1 of
                  (self2, rs2) \<Rightarrow>
                    if int (length drawn_cards) < num_cards then
                      (case draw_cards fuel (num_cards - int (length drawn_cards)) rs2 self2 of
                         None \<Rightarrow> None
                       | Some (Inl e, self3, rs3) \<Rightarrow> Some (Inl e, self3, rs3)
                       | Some (Inr rest, self3, rs3) \<Rightarrow>
                           Some (Inr (drawn_cards @ rest), self3, rs3))
                    else Some (Inr drawn_cards, self2, rs2))))"

text \<open>
  Python is dynamically typed: a method that hands a card to its caller returns either a
  card id or a list of card ids. \<open>value[0]\<close> raises \<open>TypeError\<close> on an integer and
  \<open>IndexError\<close> on the empty list.
\<close>

datatype pyval = PyInt int | PyList "int list"

fun subscript0 :: "pyval \<Rightarrow> error + int" where
  "subscript0 (PyInt i) = Inl TypeError"
| "subscript0 (PyList []) = Inl IndexError"
| "subscript0 (PyList (x # xs)) = Inr x"

text \<open>\<open>Deque.draw_single_card\<close>: \<open>return self.draw_cards(1)\<close>, the list as it is.\<close>

definition draw_single_card :: "nat \<Rightarrow> rng \<Rightarrow> Deque \<Rightarrow> ((error + pyval) \<times> Deque \<times> rng) option" where
  "draw_single_card fuel rs self =
     (case draw_cards fuel 1 rs self of
        None \<Rightarrow> None
      | Some (Inl e, self', rs') \<Rightarrow> Some (Inl e, self', rs')
      | Some (Inr drawn_cards, self', rs') \<Rightarrow> Some (Inr (PyList drawn_cards), self', rs'))"

text \<open>
  The invariant of the data model: \<open>size\<close> is the number of cards in the pool, and the draw
  order lies within the pool (as multisets).
\<close>

definition deque_wf :: "Deque \<Rightarrow> bool" where
  "deque_wf d \<longleftrightarrow>
     dq_size d = int (length (dq_cards d)) \<and> mset (dq_deque d) \<subseteq># mset (dq_cards d)"

section \<open>Queue\<close>

text \<open>\<open>class Queue\<close>: \<open>items\<close> is a JSON list, modelled by the list.\<close>

record Queue =
  items :: "int list"

definition add_item :: "int \<Rightarrow> Queue \<Rightarrow> Queue" where
  "add_item item self = self\<lparr>items := items self @ [item]\<rparr>"

definition pop_item :: "Queue \<Rightarrow> int option \<times> Queue" where
  "pop_item self =
     (let its = items self in
      if length its = 0 then (None, self)
      else (Some (hd its), self\<lparr>items := tl its\<rparr>))"

definition remove_item :: "int \<Rightarrow> Queue \<Rightarrow> Queue" where
  "remove_item item self = self\<lparr>items := [i \<leftarrow> items self. i \<noteq> item]\<rparr>"

section \<open>Rows and objects\<close>

text \<open>
  A model instance is a Python object holding the fields of one row; \<open>save()\<close> writes the
  object over its row. The records below are the objects. Foreign keys are primary keys,
  \<open>None\<close> for a null one.
\<close>

type_synonym hand_id = int
type_synonym round_id = int

record Player =
  auth_token :: string
  current_game :: "game_id option"
  current_hand :: "hand_id option"
  score :: "int option"

record Turn =
  tn_round :: round_id
  tn_player :: player_id
  tn_card :: "card_id option"

text \<open>\<open>Round.State\<close>, an \<open>IntEnum\<close>; \<open>state_value\<close> is its integer.\<close>

datatype State = PLAY | PICK | WAITING_FINISH | State_FINISHED

fun state_value :: "State \<Rightarrow> int" where
  "state_value PLAY = 1"
| "state_value PICK = 2"
| "state_value WAITING_FINISH = 3"
| "state_value State_FINISHED = 4"

record Round =
  r_id :: round_id
  card_czar :: player_id
  black_card :: card_id
  play_finish :: instant
  pick_finish :: instant
  round_finish :: instant

datatype Status = CREATED | STARTED | FINISHED

text \<open>
  \<open>class Game\<close>. A game reaches its round, its two deques and its queue only through the
  foreign keys of its own object, each row is created for this game alone, and the related
  object is cached on the game object: they are held in the game.
\<close>

record Game =
  g_id :: game_id
  status :: Status
  host :: "player_id option"
  current_round :: "Round option"
  black_deque :: "Deque option"
  white_deque :: "Deque option"
  player_queue :: "Queue option"

text \<open>
  The database and the environment. \<open>players\<close> and \<open>games\<close> are tables (primary key, row);
  \<open>hand_cards\<close> gives the cards linked to each \<open>Hand\<close> (the many-to-many table, duplicate
  free); \<open>turns\<close> is the table of \<open>Turn\<close>; \<open>black_card_ids\<close> and \<open>white_card_ids\<close> are the
  primary keys of the \<open>Card\<close> rows with \<open>is_black\<close> true and false. \<open>next_hand_id\<close> and
  \<open>next_round_id\<close> are the keys the next \<open>create()\<close> takes. \<open>clock\<close> gives the successive
  readings of \<open>datetime.now()\<close>, \<open>ticks\<close> counts the readings taken, \<open>rand\<close> is the
  random source.
\<close>

record World =
  players :: "(player_id \<times> Player) list"
  games :: "(game_id \<times> Game) list"
  hand_cards :: "hand_id \<Rightarrow> card_id list"
  turns :: "Turn list"
  black_card_ids :: "card_id list"
  white_card_ids :: "card_id list"
  next_hand_id :: hand_id
  next_round_id :: round_id
  clock :: "nat \<Rightarrow> instant"
  ticks :: nat
  rand :: rng

text \<open>Writing a row: the row with this key is replaced; a new key is appended.\<close>

fun put_row :: "int \<Rightarrow> 'v \<Rightarrow> (int \<times> 'v) list \<Rightarrow> (int \<times> 'v) list" where
  "put_row k v [] = [(k, v)]"
| "put_row k v ((k', v') # rows) =
     (if k' = k then (k, v) # rows else (k', v') # put_row k v rows)"

definition save_player :: "player_id \<Rightarrow> Player \<Rightarrow> World \<Rightarrow> World" where
  "save_player pid player w = w\<lparr>players := put_row pid player (players w)\<rparr>"

definition save_game :: "Game \<Rightarrow> World \<Rightarrow> World" where
  "save_game game w = w\<lparr>games := put_row (g_id game) game (games w)\<rparr>"

text \<open>\<open>datetime.now()\<close>.\<close>

definition now :: "World \<Rightarrow> instant \<times> World" where
  "now w = (clock w (ticks w), w\<lparr>ticks := Suc (ticks w)\<rparr>)"

definition seconds :: "int \<Rightarrow> instant" where
  "seconds s = s * 1000000"

text \<open>
  Python raises \<open>RecursionError\<close> when calls nest deeper than the interpreter's limit
  (1000 unless changed); this is the fuel \<open>draw_cards\<close> gets from the game.
\<close>

definition recursion_limit :: nat where
  "recursion_limit = 1000"

definition MAX_PLAYERS :: int where "MAX_PLAYERS = 10"
definition HAND_SIZE :: int where "HAND_SIZE = 10"
definition PLAY_PHASE_LENGTH_SECONDS :: int where "PLAY_PHASE_LENGTH_SECONDS = 300"
definition PICK_PHASE_LENGTH_SECONDS :: int where "PICK_PHASE_LENGTH_SECONDS = 300"
definition FINISH_DELAY_SECONDS :: int where "FINISH_DELAY_SECONDS = 1"
definition WINNER_SCORE :: int where "WINNER_SCORE = 3"

section \<open>Round\<close>

text \<open>\<open>Round.get_state\<close> at the instant \<open>asof\<close>; a caller that passes none reads the clock.\<close>

definition get_state :: "instant \<Rightarrow> Round \<Rightarrow> State" where
  "get_state asof self =
     (if asof \<le> play_finish self then PLAY
      else if asof \<le> pick_finish self then PICK
      else if asof \<le> round_finish self then WAITING_FINISH
      else State_FINISHED)"

text \<open>\<open>self.turn_set\<close>: the \<open>Turn\<close> rows whose \<open>round\<close> is this round.\<close>

definition turn_set :: "Round \<Rightarrow> World \<Rightarrow> Turn list" where
  "turn_set self w = [t \<leftarrow> turns w. tn_round t = r_id self]"

text \<open>
  \<open>Round.play_card\<close>. The result is the exception raised, if any, and the database as the
  call leaves it.
\<close>

definition Round_play_card ::
  "player_id \<Rightarrow> card_id \<Rightarrow> Round \<Rightarrow> World \<Rightarrow> error option \<times> World" where
  "Round_play_card pid cid self w =
     (if length [t \<leftarrow> turn_set self w. tn_player t = pid] > 0
      then (Some PlayerHasAlreadyPlayed, w)
      else (None, w\<lparr>turns := turns w @
                       [\<lparr>tn_round = r_id self, tn_player = pid, tn_card = Some cid\<rparr>]\<rparr>))"

text \<open>
  \<open>self.turn_set.remove(player_turn, bulk=False)\<close>. \<open>Turn.round\<close> is declared without
  \<open>null=True\<close>, and the related manager of a foreign key that cannot be null has no
  \<open>remove\<close> method (a row cannot leave the relation without entering another): the
  attribute lookup raises \<open>AttributeError\<close>.
\<close>

definition turn_set_remove :: "Turn \<Rightarrow> Round \<Rightarrow> World \<Rightarrow> error + World" where
  "turn_set_remove player_turn self w = Inl AttributeError"

text \<open>\<open>Round.remove_player\<close>.\<close>

definition Round_remove_player :: "player_id \<Rightarrow> Round \<Rightarrow> World \<Rightarrow> error + World" where
  "Round_remove_player pid self w =
     (let player_turn = [t \<leftarrow> turn_set self w. tn_player t = pid] in
      if length player_turn = 0 then Inr w
      else if length player_turn \<noteq> 1 then Inl MultipleObjectsReturned
      else turn_set_remove (hd player_turn) self w)"

section \<open>Game\<close>

text \<open>\<open>self.player_set\<close>: the \<open>Player\<close> rows whose \<open>current_game\<close> is this game.\<close>

definition player_set :: "Game \<Rightarrow> World \<Rightarrow> (player_id \<times> Player) list" where
  "player_set self w = [row \<leftarrow> players w. current_game (snd row) = Some (g_id self)]"

text \<open>\<open>Game._get_winner\<close>; \<open>get()\<close> on more than one row raises.\<close>

definition get_winner :: "Game \<Rightarrow> World \<Rightarrow> error + player_id option" where
  "get_winner self w =
     (let winner = [row \<leftarrow> player_set self w. score (snd row) = Some WINNER_SCORE] in
      if length winner = 0 then Inr None
      else if length winner = 1 then Inr (Some (fst (hd winner)))
      else Inl MultipleObjectsReturned)"

text \<open>
  \<open>Game._repick_host\<close>: \<open>first()\<close> of an unordered query is the row of least primary key,
  \<open>None\<close> when there is none.
\<close>

definition repick_host :: "Game \<Rightarrow> World \<Rightarrow> Game" where
  "repick_host self w =
     (case map fst (player_set self w) of
        [] \<Rightarrow> self\<lparr>host := None\<rparr>
      | p # ps \<Rightarrow> self\<lparr>host := Some (fold min ps p)\<rparr>)"

text \<open>
  \<open>Game._deal_cards_to_player\<close>, on the player object \<open>player\<close> of key \<open>pid\<close>.
  \<open>Card.objects.filter(id__in=new_card_ids)\<close> is the existing cards among the drawn ids, each
  once; adding to the many-to-many relation skips the cards already linked.
\<close>

definition all_card_ids :: "World \<Rightarrow> card_id list" where
  "all_card_ids w = remdups (black_card_ids w @ white_card_ids w)"

definition deal_cards_to_player ::
  "player_id \<Rightarrow> Player \<Rightarrow> Game \<Rightarrow> World \<Rightarrow> error + Player \<times> Game \<times> World" where
  "deal_cards_to_player pid player self w =
     (case (case current_hand player of
              None \<Rightarrow>
                (let hid = next_hand_id w;
                     player' = player\<lparr>current_hand := Some hid\<rparr>
                 in (hid, player',
                     save_player pid player'
                       (w\<lparr>hand_cards := (hand_cards w)(hid := []), next_hand_id := hid + 1\<rparr>)))
            | Some hid \<Rightarrow> (hid, player, w)) of
        (hid, player1, w1) \<Rightarrow>
          let num_cards_in_hand = int (length (hand_cards w1 hid));
              num_cards_to_deal = HAND_SIZE - num_cards_in_hand
          in if num_cards_to_deal = 0 then Inr (player1, self, w1)
             else
               (case white_deque self of
                  None \<Rightarrow> Inl AttributeError
                | Some dq \<Rightarrow>
                    (case draw_cards recursion_limit num_cards_to_deal (rand w1) dq of
                       None \<Rightarrow> Inl RecursionError
                     | Some (Inl e, dq', rs') \<Rightarrow> Inl e
                     | Some (Inr new_card_ids, dq', rs') \<Rightarrow>
                         (let found = [c \<leftarrow> all_card_ids w1. c \<in> set new_card_ids];
                              held = hand_cards w1 hid
                          in Inr (player1, self\<lparr>white_deque := Some dq'\<rparr>,
                                  w1\<lparr>hand_cards := (hand_cards w1)
                                          (hid := held @ [c \<leftarrow> found. c \<notin> set held]),
                                      rand := rs'\<rparr>)))))"

text \<open>\<open>Game._deal_cards\<close>: the loop over the rows of \<open>self.player_set.all()\<close>.\<close>

fun deal_cards_loop :: "(player_id \<times> Player) list \<Rightarrow> Game \<Rightarrow> World \<Rightarrow> error + Game \<times> World" where
  "deal_cards_loop [] self w = Inr (self, w)"
| "deal_cards_loop ((pid, player) # rows) self w =
     (case deal_cards_to_player pid player self w of
        Inl e \<Rightarrow> Inl e
      | Inr (player', self', w') \<Rightarrow> deal_cards_loop rows self' w')"

definition deal_cards :: "Game \<Rightarrow> World \<Rightarrow> error + Game \<times> World" where
  "deal_cards self w = deal_cards_loop (player_set self w) self w"

text \<open>
  \<open>Game._draw_black_card\<close>: \<open>self.black_deque.draw_single_card()[0]\<close>, then
  \<open>Card.objects.get\<close> on that id.
\<close>

definition draw_black_card :: "Game \<Rightarrow> World \<Rightarrow> error + card_id \<times> Game \<times> World" where
  "draw_black_card self w =
     (case black_deque self of
        None \<Rightarrow> Inl AttributeError
      | Some dq \<Rightarrow>
          (case draw_single_card recursion_limit (rand w) dq of
             None \<Rightarrow> Inl RecursionError
           | Some (Inl e, dq', rs') \<Rightarrow> Inl e
           | Some (Inr v, dq', rs') \<Rightarrow>
               (case subscript0 v of
                  Inl e \<Rightarrow> Inl e
                | Inr cid \<Rightarrow>
                    if cid \<in> set (all_card_ids w)
                    then Inr (cid, self\<lparr>black_deque := Some dq'\<rparr>, w\<lparr>rand := rs'\<rparr>)
                    else Inl ObjectDoesNotExist)))"

text \<open>
  \<open>Game._start_new_round\<close>. \<open>pop_item\<close> gives \<open>None\<close> on an empty queue, and
  \<open>self.player_set.filter(id=card_czar_id).get()\<close> raises when no member has that key.
\<close>

definition start_new_round :: "Game \<Rightarrow> World \<Rightarrow> error + Game \<times> World" where
  "start_new_round self w =
     (if status self = FINISHED then Inl GameFinishedError
      else
        let self1 = (if status self = CREATED then self\<lparr>status := STARTED\<rparr> else self) in
        case now w of
          (t, w1) \<Rightarrow>
            let play_finish' = t + seconds PLAY_PHASE_LENGTH_SECONDS;
                pick_finish' = play_finish' + seconds PICK_PHASE_LENGTH_SECONDS;
                round_finish' = pick_finish' + seconds FINISH_DELAY_SECONDS
            in
            (case player_queue self1 of
               None \<Rightarrow> Inl AttributeError
             | Some q \<Rightarrow>
                 (case pop_item q of
                    (card_czar_id, q1) \<Rightarrow>
                      let found = [row \<leftarrow> player_set self1 w1. Some (fst row) = card_czar_id] in
                      if length found = 0 then Inl ObjectDoesNotExist
                      else if length found \<noteq> 1 then Inl MultipleObjectsReturned
                      else
                        (case card_czar_id of
                           None \<Rightarrow> Inl ObjectDoesNotExist
                         | Some czar \<Rightarrow>
                             let self2 = self1\<lparr>player_queue := Some (add_item czar q1)\<rparr> in
                             (case draw_black_card self2 w1 of
                                Inl e \<Rightarrow> Inl e
                              | Inr (cid, self3, w2) \<Rightarrow>
                                  let new_round =
                                        \<lparr>r_id = next_round_id w2, card_czar = czar,
                                         black_card = cid, play_finish = play_finish',
                                         pick_finish = pick_finish',
                                         round_finish = round_finish'\<rparr>;
                                      w3 = w2\<lparr>next_round_id := next_round_id w2 + 1\<rparr>;
                                      self4 = self3\<lparr>current_round := Some new_round\<rparr>
                                  in deal_cards self4 w3)))))"

text \<open>
  The decks of \<open>Game._update_state\<close>: a new \<open>Deque\<close> gets the ids of the cards of its colour
  and is shuffled.
\<close>

definition new_deque :: "card_id list \<Rightarrow> rng \<Rightarrow> Deque \<times> rng" where
  "new_deque ids rs = shuffle rs (add_cards ids Deque_create)"

definition create_deques :: "Game \<Rightarrow> World \<Rightarrow> Game \<times> World" where
  "create_deques self w =
     (case (case black_deque self of
              None \<Rightarrow>
                (case new_deque (black_card_ids w) (rand w) of
                   (dq, rs') \<Rightarrow> (self\<lparr>black_deque := Some dq\<rparr>, w\<lparr>rand := rs'\<rparr>))
            | Some dq \<Rightarrow> (self, w)) of
        (self1, w1) \<Rightarrow>
          (case white_deque self1 of
             None \<Rightarrow>
               (case new_deque (white_card_ids w1) (rand w1) of
                  (dq, rs') \<Rightarrow> (self1\<lparr>white_deque := Some dq\<rparr>, w1\<lparr>rand := rs'\<rparr>))
           | Some dq \<Rightarrow> (self1, w1)))"

text \<open>
  \<open>Game._update_state\<close>. \<open>ensure_queue\<close> is its first statement: a game without a queue
  gets a new, empty one. The clock is read by \<open>get_state()\<close> only when the game is started
  and has a round (\<open>and\<close> evaluates from the left). With a winner the method returns at once.
\<close>

definition ensure_queue :: "Game \<Rightarrow> Game" where
  "ensure_queue self =
     (if player_queue self = None then self\<lparr>player_queue := Some \<lparr>items = []\<rparr>\<rparr> else self)"

definition update_state :: "Game \<Rightarrow> World \<Rightarrow> error + Game \<times> World" where
  "update_state self w =
     (let self1 = ensure_queue self in
      case (if status self1 = STARTED then current_round self1 else None) of
        None \<Rightarrow> Inr (create_deques self1 w)
      | Some rnd \<Rightarrow>
          (case now w of
             (t, w1) \<Rightarrow>
               if get_state t rnd = State_FINISHED then
                 (case get_winner self1 w1 of
                    Inl e \<Rightarrow> Inl e
                  | Inr (Some winner) \<Rightarrow> Inr (self1\<lparr>status := FINISHED\<rparr>, w1)
                  | Inr None \<Rightarrow>
                      (case start_new_round self1 w1 of
                         Inl e \<Rightarrow> Inl e
                       | Inr (self2, w2) \<Rightarrow> Inr (create_deques self2 w2)))
               else Inr (create_deques self1 w1)))"

text \<open>
  \<open>Game._pick_card\<close>. \<open>turn.player\<close> is read from its row; \<open>score += 1\<close> on a null score
  raises \<open>TypeError\<close>. The method returns the round object with its new timestamps.
\<close>

definition pick_card :: "card_id \<Rightarrow> instant \<Rightarrow> Game \<Rightarrow> World \<Rightarrow> error + Game \<times> World" where
  "pick_card cid asof self w =
     (case current_round self of
        None \<Rightarrow> Inl AttributeError
      | Some rnd \<Rightarrow>
          (let turn = [t \<leftarrow> turn_set rnd w. tn_card t = Some cid] in
           if length turn = 0 then Inl CardIsNotOnTableError
           else if length turn \<noteq> 1 then Inl MultipleObjectsReturned
           else
             (let pid = tn_player (hd turn) in
              case map_of (players w) pid of
                None \<Rightarrow> Inl ObjectDoesNotExist
              | Some turn_player \<Rightarrow>
                  (case (if current_game turn_player = Some (g_id self)
                         then (case score turn_player of
                                 None \<Rightarrow> Inl TypeError
                               | Some sc \<Rightarrow> Inr (turn_player\<lparr>score := Some (sc + 1)\<rparr>))
                         else Inr turn_player) of
                     Inl e \<Rightarrow> Inl e
                   | Inr turn_player' \<Rightarrow>
                       (let rnd' = rnd\<lparr>pick_finish := asof,
                                        round_finish := asof + seconds FINISH_DELAY_SECONDS\<rparr>
                        in Inr (self\<lparr>current_round := Some rnd'\<rparr>,
                                save_player pid turn_player' w))))))"

text \<open>
  \<open>Game._play_card\<close>, on the player object \<open>player\<close> of key \<open>pid\<close>. The three timestamps
  are each assigned from \<open>asof\<close>.
\<close>

definition Game_play_card' ::
  "player_id \<Rightarrow> Player \<Rightarrow> card_id \<Rightarrow> instant \<Rightarrow> Game \<Rightarrow> World \<Rightarrow> error + Game \<times> World" where
  "Game_play_card' pid player cid asof self w =
     (if (case current_hand player of
            None \<Rightarrow> True
          | Some hid \<Rightarrow> length [c \<leftarrow> hand_cards w hid. c = cid] = 0)
      then Inl PlayerDoesNotHaveCardError
      else
        (case current_round self of
           None \<Rightarrow> Inl AttributeError
         | Some rnd \<Rightarrow>
             (case Round_play_card pid cid rnd w of
                (Some e, w1) \<Rightarrow> Inl e
              | (None, w1) \<Rightarrow>
                  (let rnd' =
                         (if int (length (turn_set rnd w1)) + 1 = int (length (player_set self w1))
                          then rnd\<lparr>play_finish := asof,
                                   pick_finish := asof + seconds PICK_PHASE_LENGTH_SECONDS,
                                   round_finish := asof + seconds FINISH_DELAY_SECONDS\<rparr>
                          else rnd)
                   in Inr (self\<lparr>current_round := Some rnd'\<rparr>, w1)))))"


text \<open>\<open>Game.play_card\<close>.\<close>

definition Game_play_card ::
  "player_id \<Rightarrow> Player \<Rightarrow> card_id \<Rightarrow> instant \<Rightarrow> Game \<Rightarrow> World \<Rightarrow> error + Game \<times> World" where
  "Game_play_card pid player cid asof self w =
     (case update_state self w of
        Inl e \<Rightarrow> Inl e
      | Inr (self1, w1) \<Rightarrow>
          if status self1 = FINISHED then Inl GameFinishedError
          else if status self1 = CREATED then Inl GameNotStartedError
          else
            (case current_round self1 of
               None \<Rightarrow> Inl AttributeError
             | Some rnd \<Rightarrow>
                 (let round_state = get_state asof rnd in
                  if pid = card_czar rnd then
                    (if round_state \<noteq> PICK then Inl PermissionDeniedError
                     else pick_card cid asof self1 w1)
                  else
                    (if round_state \<noteq> PLAY then Inl PermissionDeniedError
                     else Game_play_card' pid player cid asof self1 w1))))"

text \<open>
  \<open>Game.add_player\<close>, on the player object \<open>player\<close> of key \<open>pid\<close>.
  \<open>self.player_set.add(player)\<close> sets \<open>current_game\<close> on the object and on its row.
  The result holds the player object as the method leaves it.
\<close>

definition player_set_add :: "player_id \<Rightarrow> Game \<Rightarrow> World \<Rightarrow> World" where
  "player_set_add pid self w =
     w\<lparr>players := map (\<lambda>row. if fst row = pid
                               then (fst row, (snd row)\<lparr>current_game := Some (g_id self)\<rparr>)
                               else row) (players w)\<rparr>"

definition add_player ::
  "player_id \<Rightarrow> Player \<Rightarrow> Game \<Rightarrow> World \<Rightarrow> error + Player \<times> Game \<times> World" where
  "add_player pid player self w =
     (case update_state self w of
        Inl e \<Rightarrow> Inl e
      | Inr (self1, w1) \<Rightarrow>
          if status self1 = FINISHED then Inl GameFinishedError
          else if int (length (player_set self1 w1)) = MAX_PLAYERS then Inl GameIsFullError
          else
            (case player_queue self1 of
               None \<Rightarrow> Inl AttributeError
             | Some q \<Rightarrow>
                 (let self2 = self1\<lparr>player_queue := Some (add_item pid q)\<rparr>;
                      player1 = player\<lparr>current_game := Some (g_id self)\<rparr>;
                      w2 = player_set_add pid self2 w1
                  in case deal_cards_to_player pid player1 self2 w2 of
                       Inl e \<Rightarrow> Inl e
                     | Inr (player2, self3, w3) \<Rightarrow>
                         (let player3 = player2\<lparr>score := Some 0\<rparr>
                          in Inr (player3, self3, save_player pid player3 w3)))))"

text \<open>
  \<open>Game.remove_player\<close>. \<open>round.get_state()\<close> reads the clock, and only when the leaving
  player is the czar. \<open>round.save()\<close> writes the old round object back unchanged.
\<close>

definition remove_player ::
  "player_id \<Rightarrow> Player \<Rightarrow> Game \<Rightarrow> World \<Rightarrow> error + Player \<times> Game \<times> World" where
  "remove_player pid player self w =
     (case update_state self w of
        Inl e \<Rightarrow> Inl e
      | Inr (self1, w1) \<Rightarrow>
          (case player_queue self1 of
             None \<Rightarrow> Inl AttributeError
           | Some q \<Rightarrow>
               (let self2 = self1\<lparr>player_queue := Some (remove_item pid q)\<rparr>;
                    player1 = player\<lparr>current_game := None, current_hand := None, score := None\<rparr>;
                    w2 = save_player pid player1 w1
                in if length (player_set self2 w2) = 0
                   then Inr (player1,
                             self2\<lparr>host := None, status := FINISHED, current_round := None\<rparr>, w2)
                   else
                     (let self3 = (if Some pid = host self2 then repick_host self2 w2 else self2)
                      in case current_round self3 of
                           None \<Rightarrow> Inr (player1, self3, w2)
                         | Some rnd \<Rightarrow>
                             if pid = card_czar rnd then
                               (case now w2 of
                                  (t, w3) \<Rightarrow>
                                    if state_value (get_state t rnd) \<le> state_value PICK then
                                      (case start_new_round self3 w3 of
                                         Inl e \<Rightarrow> Inl e
                                       | Inr (self4, w4) \<Rightarrow> Inr (player1, self4, w4))
                                    else
                                      (case Round_remove_player pid rnd w3 of
                                         Inl e \<Rightarrow> Inl e
                                       | Inr w4 \<Rightarrow> Inr (player1, self3, w4)))
                             else
                               (case Round_remove_player pid rnd w2 of
                                  Inl e \<Rightarrow> Inl e
                                | Inr w3 \<Rightarrow> Inr (player1, self3, w3))))))"

section \<open>Player\<close>

text \<open>
  \<open>Player.get_player_by_token\<close>: \<open>get(auth_token=token)\<close> raises unless exactly one row
  has the token.
\<close>

definition get_player_by_token :: "string \<Rightarrow> World \<Rightarrow> error + player_id \<times> Player" where
  "get_player_by_token token w =
     (let found = [row \<leftarrow> players w. auth_token (snd row) = token] in
      if length found = 0 then Inl ObjectDoesNotExist
      else if length found \<noteq> 1 then Inl MultipleObjectsReturned
      else Inr (hd found))"

text \<open>
  \<open>Player.leave_current_game\<close>: the game object is the row \<open>current_game\<close> points to;
  \<open>game.save()\<close> writes it back.
\<close>

definition leave_current_game :: "player_id \<Rightarrow> Player \<Rightarrow> World \<Rightarrow> error + Player \<times> World" where
  "leave_current_game pid player w =
     (case current_game player of
        None \<Rightarrow> Inr (player, w)
      | Some gid \<Rightarrow>
          (case map_of (games w) gid of
             None \<Rightarrow> Inl ObjectDoesNotExist
           | Some game \<Rightarrow>
               (case remove_player pid player game w of
                  Inl e \<Rightarrow> Inl e
                | Inr (player', game', w') \<Rightarrow> Inr (player', save_game game' w'))))"

text \<open>
  The \<open>game_id\<close> argument of \<open>Player.join_game\<close> as its callers pass it: the tests pass
  \<open>game.id\<close>, an \<open>int\<close>; \<open>views.join_game\<close> passes \<open>request.GET.get('id')\<close>, the \<open>str\<close>
  of the query parameter as it is, or \<open>None\<close> when the parameter is missing.
\<close>

datatype game_key = IntKey int | StrKey string | NoneKey

text \<open>
  \<open>player.current_game.id == game_id\<close>, the left side an \<open>int\<close>: Python compares an \<open>int\<close>
  with an \<open>int\<close> by value, and an \<open>int\<close> is equal to no \<open>str\<close> and not to \<open>None\<close>.
\<close>

fun int_eq_key :: "int \<Rightarrow> game_key \<Rightarrow> bool" where
  "int_eq_key i (IntKey j) = (i = j)"
| "int_eq_key i (StrKey s) = False"
| "int_eq_key i NoneKey = False"

text \<open>
  \<open>int(s)\<close> on a \<open>str\<close>, by which the primary-key field prepares a lookup value: white space
  around the literal is dropped; then an optional sign and decimal digits, where single
  underscores may stand between digits. \<open>None\<close> is the \<open>ValueError\<close>. Strings are over
  HOL's 8-bit characters, of which these are Python's white space and decimal digits.
\<close>

definition is_space :: "char \<Rightarrow> bool" where
  "is_space c \<longleftrightarrow> (of_char c :: nat) \<in> set [9, 10, 11, 12, 13, 28, 29, 30, 31, 32, 133, 160]"

definition strip :: "string \<Rightarrow> string" where
  "strip s = rev (dropWhile is_space (rev (dropWhile is_space s)))"

definition digit_value :: "char \<Rightarrow> int option" where
  "digit_value c =
     map_of [(CHR ''0'', 0), (CHR ''1'', 1), (CHR ''2'', 2), (CHR ''3'', 3), (CHR ''4'', 4),
             (CHR ''5'', 5), (CHR ''6'', 6), (CHR ''7'', 7), (CHR ''8'', 8), (CHR ''9'', 9)] c"

fun read_digits :: "int \<Rightarrow> string \<Rightarrow> int option" where
  "read_digits acc [] = Some acc"
| "read_digits acc [c] =
     (case digit_value c of None \<Rightarrow> None | Some d \<Rightarrow> Some (acc * 10 + d))"
| "read_digits acc (c # c' # cs) =
     (case digit_value c of
        Some d \<Rightarrow> read_digits (acc * 10 + d) (c' # cs)
      | None \<Rightarrow>
          if c = CHR ''_'' then
            (case digit_value c' of
               None \<Rightarrow> None
             | Some d \<Rightarrow> read_digits (acc * 10 + d) cs)
          else None)"

definition read_literal :: "string \<Rightarrow> int option" where
  "read_literal s =
     (case s of
        [] \<Rightarrow> None
      | c # cs \<Rightarrow> (case digit_value c of None \<Rightarrow> None | Some d \<Rightarrow> read_digits d cs))"

definition py_int :: "string \<Rightarrow> int option" where
  "py_int s =
     (case strip s of
        [] \<Rightarrow> None
      | c # cs \<Rightarrow>
          if c = CHR ''-'' then map_option uminus (read_literal cs)
          else if c = CHR ''+'' then read_literal cs
          else read_literal (c # cs))"

text \<open>
  \<open>Game.objects.select_for_update().get(pk=game_id)\<close>: an \<open>int\<close> is looked up as it is, a
  \<open>str\<close> after \<open>int()\<close> (\<open>ValueError\<close> when it is no number), and \<open>pk=None\<close> selects the rows
  with a null key, of which there are none; \<open>get\<close> raises when no row is found.
\<close>

definition get_game_by_pk :: "game_key \<Rightarrow> World \<Rightarrow> error + Game" where
  "get_game_by_pk game_id w =
     (case (case game_id of
              IntKey i \<Rightarrow> Inr (Some i)
            | StrKey s \<Rightarrow> (case py_int s of None \<Rightarrow> Inl ValueError | Some i \<Rightarrow> Inr (Some i))
            | NoneKey \<Rightarrow> Inr None) of
        Inl e \<Rightarrow> Inl e
      | Inr None \<Rightarrow> Inl ObjectDoesNotExist
      | Inr (Some i) \<Rightarrow>
          (case map_of (games w) i of
             None \<Rightarrow> Inl ObjectDoesNotExist
           | Some game \<Rightarrow> Inr game))"

text \<open>
  \<open>Player.join_game\<close>. The body runs in \<open>transaction.atomic()\<close>: an exception leaves the
  database as it was, so a failure carries no world.
\<close>

definition join_game :: "string \<Rightarrow> game_key \<Rightarrow> World \<Rightarrow> error + World" where
  "join_game token game_id w =
     (case get_player_by_token token w of
        Inl e \<Rightarrow> Inl e
      | Inr (pid, player) \<Rightarrow>
          if (case current_game player of
                None \<Rightarrow> False
              | Some current_game_id \<Rightarrow> int_eq_key current_game_id game_id)
          then Inr w
          else
            (case leave_current_game pid player w of
               Inl e \<Rightarrow> Inl e
             | Inr (player1, w1) \<Rightarrow>
                 (case get_game_by_pk game_id w1 of
                    Inl e \<Rightarrow> Inl e
                  | Inr game \<Rightarrow>
                      (case add_player pid player1 game w1 of
                         Inl e \<Rightarrow> Inl e
                       | Inr (player2, game', w2) \<Rightarrow>
                           Inr (save_player pid player2 (save_game game' w2))))))"

section \<open>The spec's reading of Queue removal\<close>

text \<open>
  The spec words \<open>remove(item)\<close> as "remove first occurrence equal to item; no-op if not
  present". This is that reading, to be compared with \<open>remove_item\<close>.
\<close>

definition remove_item_spec :: "int \<Rightarrow> Queue \<Rightarrow> Queue" where
  "remove_item_spec item self = self\<lparr>items := remove1 item (items self)\<rparr>"

section \<open>A game in progress\<close>

text \<open>
  A started game of three players (ann, the host and czar; bob; cat), each holding ten
  white cards, in the play phase of its first round, where bob has played card 111. A
  fourth player, dan, is in no game. The clock stands at second 10.
\<close>

definition example_round :: Round where
  "example_round = \<lparr>r_id = 1, card_czar = 1, black_card = 1,
     play_finish = seconds 300, pick_finish = seconds 600, round_finish = seconds 601\<rparr>"

definition example_game :: Game where
  "example_game = \<lparr>g_id = 5, status = STARTED, host = Some 1,
     current_round = Some example_round,
     black_deque = Some \<lparr>dq_cards = [2, 3], dq_deque = [2, 3], dq_size = 2\<rparr>,
     white_deque = Some \<lparr>dq_cards = [131..140], dq_deque = [131..140], dq_size = 10\<rparr>,
     player_queue = Some \<lparr>items = [3, 1, 2]\<rparr>\<rparr>"

definition ann :: Player where
  "ann = \<lparr>auth_token = ''ann'', current_game = Some 5, current_hand = Some 1, score = Some 0\<rparr>"

definition bob :: Player where
  "bob = \<lparr>auth_token = ''bob'', current_game = Some 5, current_hand = Some 2, score = Some 0\<rparr>"

definition cat :: Player where
  "cat = \<lparr>auth_token = ''cat'', current_game = Some 5, current_hand = Some 3, score = Some 0\<rparr>"

definition dan :: Player where
  "dan = \<lparr>auth_token = ''dan'', current_game = None, current_hand = None, score = None\<rparr>"

definition example_world :: World where
  "example_world = \<lparr>
     players = [(1, ann), (2, bob), (3, cat), (4, dan)],
     games = [(5, example_game)],
     hand_cards = (\<lambda>h. if h = 1 then [101..110] else if h = 2 then [111..120]
                         else if h = 3 then [121..130] else []),
     turns = [\<lparr>tn_round = 1, tn_player = 2, tn_card = Some 111\<rparr>],
     black_card_ids = [1, 2, 3],
     white_card_ids = [101..140],
     next_hand_id = 4, next_round_id = 2,
     clock = (\<lambda>n. seconds 10), ticks = 0, rand = []\<rparr>"




text \<open>
  The game object that \<open>Player.create_game\<close> makes for dan (\<open>Game.objects.create(host=player)\<close>)
  before it calls \<open>add_player\<close>: no round, no deques, no queue.
\<close>

definition new_game :: Game where
  "new_game = \<lparr>g_id = 7, status = CREATED, host = Some 4, current_round = None,
     black_deque = None, white_deque = None, player_queue = None\<rparr>"

section \<open>Properties of the Deque\<close>

text \<open>The comprehension of \<open>_remove_cards\<close> computes two multiset differences.\<close>

lemma remove_loop_spec:
  "remove_loop counter xs = (ys, counter') \<Longrightarrow>
     mset ys = mset xs - counter \<and> counter' = counter - mset xs"
proof (induction xs arbitrary: counter ys counter')
  case Nil
  then show ?case by simp
next
  case (Cons c xs)
  show ?case
  proof (cases "c \<in># counter")
    case True
    with Cons.prems have "remove_loop (counter - {#c#}) xs = (ys, counter')"
      by (simp add: try_pop_def)
    from Cons.IH[OF this] have "mset ys = mset xs - (counter - {#c#})"
      and c': "counter' = counter - {#c#} - mset xs" by simp_all
    moreover from True have "count counter c > 0" by simp
    ultimately show ?thesis
      by (auto simp: multiset_eq_iff)
  next
    case False
    with Cons.prems obtain zs where r: "remove_loop counter xs = (zs, counter')" and ys: "ys = c # zs"
      by (auto simp: try_pop_def split: prod.splits)
    from False have "count counter c = 0" by (simp add: not_in_iff)
    with Cons.IH[OF r] ys show ?thesis
      by (auto simp: multiset_eq_iff)
  qed
qed

lemma shuffle_loop_mset:
  "i < length x \<Longrightarrow> shuffle_loop i x rs = (y, rs') \<Longrightarrow> mset y = mset x"
proof (induction i arbitrary: x rs)
  case 0
  then show ?case by simp
next
  case (Suc i)
  obtain j rs1 where rb: "randbelow (Suc i + 1) rs = (j, rs1)" by (cases "randbelow (Suc i + 1) rs")
  then have j: "j < Suc i + 1" by (auto simp: randbelow_def split: list.splits)
  let ?x' = "x[Suc i := x ! j, j := x ! Suc i]"
  from Suc.prems rb have "shuffle_loop i ?x' rs1 = (y, rs')" by simp
  moreover from Suc.prems have "i < length ?x'" by simp
  ultimately have "mset y = mset ?x'" by (rule Suc.IH[rotated])
  also from j Suc.prems have "mset ?x' = mset x" by (simp add: mset_swap)
  finally show ?case .
qed

lemma random_shuffle_mset: "random_shuffle x rs = (y, rs') \<Longrightarrow> mset y = mset x"
proof (cases x)
  case Nil
  assume "random_shuffle x rs = (y, rs')"
  with Nil show ?thesis by (simp add: random_shuffle_def)
next
  case (Cons a as)
  assume "random_shuffle x rs = (y, rs')"
  with Cons show ?thesis
    using shuffle_loop_mset[of "length as" x rs y rs'] by (simp add: random_shuffle_def)
qed

lemma counter_len_0: "counter_len c = 0 \<longleftrightarrow> c = {#}"
  by (simp add: counter_len_def)

lemma remove_cards_Inl: "remove_cards xs d = Inl e \<Longrightarrow> e = CardNotInDequeError"
  by (auto simp: remove_cards_def Let_def split: prod.splits if_splits)

lemma remove_cards_Inr:
  assumes "remove_cards xs d = Inr d1"
  shows "mset (dq_cards d1) = mset (dq_cards d) - mset xs"
    and "dq_size d1 = dq_size d - int (card (set xs))"
    and "dq_deque d1 = dq_deque d"
    and "mset xs \<subseteq># mset (dq_cards d)"
proof -
  obtain ys c' where r: "remove_loop (mset xs) (dq_cards d) = (ys, c')"
    by (cases "remove_loop (mset xs) (dq_cards d)")
  from remove_loop_spec[OF r] have ys: "mset ys = mset (dq_cards d) - mset xs"
    and c': "c' = mset xs - mset (dq_cards d)" by simp_all
  from assms r have e: "c' = {#}"
    and d1: "d1 = d\<lparr>dq_size := dq_size d - int (counter_len (mset xs)), dq_cards := ys\<rparr>"
    by (auto simp: remove_cards_def Let_def counter_len_0 split: if_splits)
  from d1 ys show "mset (dq_cards d1) = mset (dq_cards d) - mset xs" by simp
  from d1 show "dq_size d1 = dq_size d - int (card (set xs))" by (simp add: counter_len_def)
  from d1 show "dq_deque d1 = dq_deque d" by simp
  from e c' show "mset xs \<subseteq># mset (dq_cards d)" by (simp add: Diff_eq_empty_iff_mset)
qed

lemma remove_cards_ok:
  assumes "mset xs \<subseteq># mset (dq_cards d)"
  shows "\<exists>d1. remove_cards xs d = Inr d1"
proof -
  obtain ys c' where r: "remove_loop (mset xs) (dq_cards d) = (ys, c')"
    by (cases "remove_loop (mset xs) (dq_cards d)")
  from remove_loop_spec[OF r] assms have "c' = {#}" by (simp add: Diff_eq_empty_iff_mset)
  with r show ?thesis by (simp add: remove_cards_def Let_def counter_len_0)
qed

lemma shuffle_spec:
  assumes "shuffle rs d = (d2, rs2)"
  shows "mset (dq_deque d2) = mset (dq_cards d)" and "dq_cards d2 = dq_cards d"
    and "dq_size d2 = dq_size d"
  using assms random_shuffle_mset[of "dq_cards d" rs]
  by (auto simp: shuffle_def split: prod.splits)

lemma slice_to_length: "0 \<le> n \<Longrightarrow> n < int (length xs) \<Longrightarrow> int (length (slice_to n xs)) = n"
  by (simp add: slice_to_def)

lemma draw_cards_length:
  "draw_cards fuel n rs d = Some (Inr cs, d', rs') \<Longrightarrow> 0 \<le> n \<Longrightarrow> int (length cs) = n"
proof (induction fuel arbitrary: n rs d cs d' rs')
  case 0
  then show ?case by simp
next
  case (Suc fuel)
  from Suc.prems(1) have le: "\<not> n > dq_size d" by (auto split: if_splits)
  show ?case
  proof (cases "int (length (dq_deque d)) > n")
    case True
    with Suc.prems le have "cs = slice_to n (dq_deque d)"
      by (auto simp: Let_def split: sum.splits)
    with True Suc.prems(2) show ?thesis by (simp add: slice_to_length)
  next
    case False
    with Suc.prems(1) le obtain d1 where r: "remove_cards (dq_deque d) d = Inr d1"
      by (auto simp: Let_def split: sum.splits)
    obtain d2 rs2 where s: "shuffle rs d1 = (d2, rs2)" by (cases "shuffle rs d1")
    show ?thesis
    proof (cases "int (length (dq_deque d)) < n")
      case True
      with Suc.prems(1) le False r s obtain rest where
        rec: "draw_cards fuel (n - int (length (dq_deque d))) rs2 d2 = Some (Inr rest, d', rs')"
        and cs: "cs = dq_deque d @ rest"
        by (auto simp: Let_def split: option.splits sum.splits prod.splits)
      from Suc.IH[OF rec] True cs show ?thesis by simp
    next
      case F2: False
      with Suc.prems(1) le False r s have "cs = dq_deque d"
        by (auto simp: Let_def)
      with False F2 show ?thesis by simp
    qed
  qed
qed

lemma mset_slice_to: "mset (slice_to n xs) \<subseteq># mset xs"
proof -
  have "mset (take k xs) \<subseteq># mset (take k xs) + mset (drop k xs)" for k by simp
  then have "mset (take k xs) \<subseteq># mset xs" for k
    by (simp only: mset_append[symmetric] append_take_drop_id)
  then show ?thesis by (simp add: slice_to_def)
qed

lemma draw_cards_no_fail:
  "mset (dq_deque d) \<subseteq># mset (dq_cards d) \<Longrightarrow> n \<le> dq_size d \<Longrightarrow>
     draw_cards fuel n rs d \<noteq> Some (Inl e, d', rs')"
proof (induction fuel arbitrary: n rs d)
  case 0
  then show ?case by simp
next
  case (Suc fuel)
  show ?case
  proof (cases "int (length (dq_deque d)) > n")
    case True
    have "mset (slice_to n (dq_deque d)) \<subseteq># mset (dq_cards d)"
      using mset_slice_to Suc.prems(1) by (rule subset_mset.order_trans)
    from remove_cards_ok[OF this] obtain d1 where "remove_cards (slice_to n (dq_deque d)) d = Inr d1" ..
    with True Suc.prems(2) show ?thesis by (simp add: Let_def)
  next
    case False
    from remove_cards_ok[OF Suc.prems(1)] obtain d1 where r: "remove_cards (dq_deque d) d = Inr d1" ..
    obtain d2 rs2 where s: "shuffle rs d1 = (d2, rs2)" by (cases "shuffle rs d1")
    show ?thesis
    proof (cases "int (length (dq_deque d)) < n")
      case True
      have "card (set (dq_deque d)) \<le> length (dq_deque d)" by (rule card_length)
      with remove_cards_Inr(2)[OF r] shuffle_spec(3)[OF s] Suc.prems(2)
      have le: "n - int (length (dq_deque d)) \<le> dq_size d2" by simp
      from shuffle_spec(1,2)[OF s] have "mset (dq_deque d2) \<subseteq># mset (dq_cards d2)" by simp
      from Suc.IH[OF this le]
      have "draw_cards fuel (n - int (length (dq_deque d))) rs2 d2 \<noteq> Some (Inl e, d', rs')" .
      with True False r s Suc.prems(2) show ?thesis
        by (auto simp: Let_def split: option.splits sum.splits)
    next
      case F2: False
      with False r s Suc.prems(2) show ?thesis by (simp add: Let_def)
    qed
  qed
qed

lemma draw_cards_fail:
  assumes "draw_cards fuel n rs d = Some (Inl e, d', rs')"
  shows "d' = d \<and> rs' = rs \<and> (e = NotEnoughCardsError \<or> e = CardNotInDequeError)
         \<and> (e = NotEnoughCardsError \<longleftrightarrow> n > dq_size d)"
proof (cases fuel)
  case 0
  with assms show ?thesis by simp
next
  case (Suc k)
  show ?thesis
  proof (cases "n > dq_size d")
    case True
    with assms Suc show ?thesis by simp
  next
    case le: False
    show ?thesis
    proof (cases "int (length (dq_deque d)) > n")
      case True
      with assms Suc le show ?thesis
        by (auto simp: Let_def split: sum.splits dest: remove_cards_Inl)
    next
      case False
      show ?thesis
      proof (cases "remove_cards (dq_deque d) d")
        case (Inl e1)
        with assms Suc le False show ?thesis
          by (auto simp: Let_def dest: remove_cards_Inl)
      next
        case (Inr d1)
        obtain d2 rs2 where s: "shuffle rs d1 = (d2, rs2)" by (cases "shuffle rs d1")
        have "card (set (dq_deque d)) \<le> length (dq_deque d)" by (rule card_length)
        with remove_cards_Inr(2)[OF Inr] shuffle_spec(3)[OF s] le
        have le2: "n - int (length (dq_deque d)) \<le> dq_size d2" by simp
        from shuffle_spec(1,2)[OF s] have "mset (dq_deque d2) \<subseteq># mset (dq_cards d2)" by simp
        from draw_cards_no_fail[OF this le2]
        have "draw_cards k (n - int (length (dq_deque d))) rs2 d2 \<noteq> Some (Inl e, d', rs')" .
        with assms Suc le False Inr s show ?thesis
          by (auto simp: Let_def split: option.splits sum.splits if_splits)
      qed
    qed
  qed
qed

lemma draw_cards_full_deque:
  assumes eq: "mset (dq_deque d) = mset (dq_cards d)"
    and n: "n \<le> int (length (dq_deque d))" and sz: "n \<le> dq_size d"
  shows "\<exists>cs d' rs'. draw_cards (Suc k) n rs d = Some (Inr cs, d', rs')"
proof (cases "int (length (dq_deque d)) > n")
  case True
  have "mset (slice_to n (dq_deque d)) \<subseteq># mset (dq_cards d)"
    using mset_slice_to[of n "dq_deque d"] eq by simp
  from remove_cards_ok[OF this] obtain d1 where "remove_cards (slice_to n (dq_deque d)) d = Inr d1" ..
  with True sz show ?thesis by (simp add: Let_def)
next
  case False
  from eq have "mset (dq_deque d) \<subseteq># mset (dq_cards d)" by simp
  from remove_cards_ok[OF this] obtain d1 where r: "remove_cards (dq_deque d) d = Inr d1" ..
  obtain d2 rs2 where s: "shuffle rs d1 = (d2, rs2)" by (cases "shuffle rs d1")
  from False n have "\<not> int (length (dq_deque d)) < n" by simp
  with False r s sz show ?thesis by (simp add: Let_def)
qed

lemma draw_cards_wf_returns:
  assumes wf: "deque_wf d" and n: "n \<le> dq_size d"
  shows "\<exists>cs d' rs'. draw_cards (Suc (Suc k)) n rs d = Some (Inr cs, d', rs')"
proof (cases "int (length (dq_deque d)) > n")
  case True
  have "mset (slice_to n (dq_deque d)) \<subseteq># mset (dq_cards d)"
    using mset_slice_to wf unfolding deque_wf_def by (blast intro: subset_mset.order_trans)
  from remove_cards_ok[OF this] obtain d1 where "remove_cards (slice_to n (dq_deque d)) d = Inr d1" ..
  with True n show ?thesis by (simp add: Let_def)
next
  case False
  from wf have sub: "mset (dq_deque d) \<subseteq># mset (dq_cards d)" by (simp add: deque_wf_def)
  from remove_cards_ok[OF sub] obtain d1 where r: "remove_cards (dq_deque d) d = Inr d1" ..
  obtain d2 rs2 where s: "shuffle rs d1 = (d2, rs2)" by (cases "shuffle rs d1")
  show ?thesis
  proof (cases "int (length (dq_deque d)) < n")
    case F2: False
    with False r s n show ?thesis by (simp add: Let_def)
  next
    case True
    let ?m = "n - int (length (dq_deque d))"
    have eq2: "mset (dq_deque d2) = mset (dq_cards d2)"
      using shuffle_spec(1,2)[OF s] by simp
    have "size (mset (dq_cards d2)) = size (mset (dq_cards d)) - size (mset (dq_deque d))"
      using shuffle_spec(2)[OF s] remove_cards_Inr(1)[OF r] sub by (simp add: size_Diff_submset)
    then have len2: "length (dq_deque d2) = length (dq_cards d) - length (dq_deque d)"
      using eq2 by (metis size_mset)
    from sub have "length (dq_deque d) \<le> length (dq_cards d)"
      by (metis size_mset size_mset_mono)
    with len2 n wf have m1: "?m \<le> int (length (dq_deque d2))" by (simp add: deque_wf_def)
    have "card (set (dq_deque d)) \<le> length (dq_deque d)" by (rule card_length)
    with remove_cards_Inr(2)[OF r] shuffle_spec(3)[OF s] n
    have m2: "?m \<le> dq_size d2" by simp
    from draw_cards_full_deque[OF eq2 m1 m2, of k rs2] obtain cs d' rs'
      where "draw_cards (Suc k) ?m rs2 d2 = Some (Inr cs, d', rs')" by blast
    with True False r s n show ?thesis by (simp add: Let_def)
  qed
qed

section \<open>Deque: size, draws and failures\<close>

text \<open>
  Claim C1 says that \<open>size\<close> always equals the number of card occurrences left in the pool,
  and that a successful \<open>drawCards(n)\<close> takes \<open>n\<close> from both, duplicates included. The
  code subtracts \<open>len\<close> of the Counter, the number of distinct values drawn: on a new Deque
  with the cards 1, 1, 1, drawing two cards returns \<open>[1, 1]\<close> and leaves one card in the pool
  with \<open>size\<close> 2.
\<close>

theorem draw_cards_duplicates_size:
  "draw_cards 2 2 [] (add_cards [1, 1, 1] Deque_create)
     = Some (Inr [1, 1], \<lparr>dq_cards = [1], dq_deque = [1], dq_size = 2\<rparr>, [])"
  by code_simp

lemma draw_cards_empty_pool_diverges:
  "draw_cards fuel 1 rs \<lparr>dq_cards = [], dq_deque = [], dq_size = 1\<rparr> = None"
proof (induction fuel)
  case 0
  show ?case by simp
next
  case (Suc fuel)
  have "remove_cards [] \<lparr>dq_cards = [], dq_deque = [], dq_size = 1\<rparr>
          = Inr \<lparr>dq_cards = [], dq_deque = [], dq_size = 1\<rparr>"
    by (simp add: remove_cards_def counter_len_def)
  moreover have "shuffle rs \<lparr>dq_cards = [], dq_deque = [], dq_size = 1\<rparr>
          = (\<lparr>dq_cards = [], dq_deque = [], dq_size = 1\<rparr>, rs)"
    by (simp add: shuffle_def random_shuffle_def)
  ultimately show ?case using Suc.IH by simp
qed

text \<open>
  Claim C6 says that every \<open>drawCards(n)\<close> either completes with its documented effects or
  fails with \<open>NotEnoughCards\<close> or \<open>CardNotInDeque\<close>, the Deque unchanged. A failure does
  leave the Deque unchanged (\<open>draw_cards_fail\<close>), but on the Deque that the draw of claim C1
  leaves behind (one card in the pool, \<open>size\<close> 2) \<open>draw_cards(2)\<close> passes the size check,
  empties the pool and then calls itself on the same state for ever: whatever the depth
  allowed and the random source, it does not return.
\<close>

theorem draw_cards_never_returns:
  "draw_cards fuel 2 rs \<lparr>dq_cards = [1], dq_deque = [1], dq_size = 2\<rparr> = None"
proof (cases fuel)
  case 0
  then show ?thesis by simp
next
  case (Suc k)
  have "remove_cards [1] \<lparr>dq_cards = [1], dq_deque = [1], dq_size = 2\<rparr>
          = Inr \<lparr>dq_cards = [], dq_deque = [1], dq_size = 1\<rparr>"
    by (simp add: remove_cards_def counter_len_def try_pop_def)
  moreover have "shuffle rs \<lparr>dq_cards = [], dq_deque = [1], dq_size = 1\<rparr>
          = (\<lparr>dq_cards = [], dq_deque = [], dq_size = 1\<rparr>, rs)"
    by (simp add: shuffle_def random_shuffle_def)
  ultimately show ?thesis
    using Suc draw_cards_empty_pool_diverges[of k rs] by simp
qed

text \<open>
  Claim C7, as stated, says that \<open>drawSingleCard()\<close> returns a bare card id. Here it returns
  the list \<open>[7]\<close>.
\<close>

theorem draw_single_card_returns_list:
  "draw_single_card 2 [] \<lparr>dq_cards = [7], dq_deque = [7], dq_size = 1\<rparr>
     = Some (Inr (PyList [7]), \<lparr>dq_cards = [], dq_deque = [], dq_size = 0\<rparr>, [])
   \<and> draw_single_card 2 [] \<lparr>dq_cards = [7], dq_deque = [7], dq_size = 1\<rparr>
     \<noteq> Some (Inr (PyInt 7), \<lparr>dq_cards = [], dq_deque = [], dq_size = 0\<rparr>, [])"
  by code_simp

text \<open>
  Claim C7, amended: whenever \<open>drawSingleCard()\<close> returns, its result is the one-element
  list that \<open>drawCards(1)\<close> returns, not unwrapped (the caller takes element 0 of it); and it
  does return, within two levels of recursion, on every Deque with \<open>size \<ge> 1\<close> whose
  \<open>size\<close> is the length of its pool and whose draw order lies within the pool.
\<close>

theorem draw_single_card_one_element_list:
  "(\<forall>v d' rs'. draw_single_card fuel rs d = Some (Inr v, d', rs') \<longrightarrow>
      (\<exists>c. v = PyList [c] \<and> draw_cards fuel 1 rs d = Some (Inr [c], d', rs')
           \<and> subscript0 v = Inr c))
   \<and> (deque_wf d \<and> 1 \<le> dq_size d \<longrightarrow>
      (\<exists>c d' rs'. draw_single_card (Suc (Suc k)) rs d = Some (Inr (PyList [c]), d', rs')))"
proof (intro conjI allI impI)
  fix v d' rs'
  assume a: "draw_single_card fuel rs d = Some (Inr v, d', rs')"
  then obtain cs where dc: "draw_cards fuel 1 rs d = Some (Inr cs, d', rs')" and v: "v = PyList cs"
    by (auto simp: draw_single_card_def split: option.splits sum.splits)
  from draw_cards_length[OF dc] have "length cs = 1" by simp
  then obtain c where "cs = [c]" by (cases cs) auto
  with dc v show "\<exists>c. v = PyList [c] \<and> draw_cards fuel 1 rs d = Some (Inr [c], d', rs')
           \<and> subscript0 v = Inr c" by simp
next
  assume "deque_wf d \<and> 1 \<le> dq_size d"
  then have wf: "deque_wf d" and sz: "1 \<le> dq_size d" by simp_all
  from draw_cards_wf_returns[OF wf sz, of k rs] obtain cs d' rs'
    where dc: "draw_cards (Suc (Suc k)) 1 rs d = Some (Inr cs, d', rs')" by blast
  from draw_cards_length[OF dc] have "length cs = 1" by simp
  then obtain c where "cs = [c]" by (cases cs) auto
  with dc show "\<exists>c d' rs'. draw_single_card (Suc (Suc k)) rs d = Some (Inr (PyList [c]), d', rs')"
    by (simp add: draw_single_card_def)
qed

theorem draw_single_card_one_element_list_witness:
  "draw_single_card (Suc (Suc 0)) [] \<lparr>dq_cards = [7, 8], dq_deque = [8, 7], dq_size = 2\<rparr>
     = Some (Inr (PyList [8]), \<lparr>dq_cards = [7], dq_deque = [7], dq_size = 1\<rparr>, [])
   \<and> draw_cards (Suc (Suc 0)) 1 [] \<lparr>dq_cards = [7, 8], dq_deque = [8, 7], dq_size = 2\<rparr>
     = Some (Inr [8], \<lparr>dq_cards = [7], dq_deque = [7], dq_size = 1\<rparr>, [])
   \<and> subscript0 (PyList [8]) = Inr 8
   \<and> deque_wf \<lparr>dq_cards = [7, 8], dq_deque = [8, 7], dq_size = 2\<rparr>
   \<and> (1::int) \<le> dq_size \<lparr>dq_cards = [7, 8], dq_deque = [8, 7], dq_size = 2\<rparr>
   \<and> (\<exists>c d' rs'. draw_single_card (Suc (Suc 0)) [] \<lparr>dq_cards = [7, 8], dq_deque = [8, 7], dq_size = 2\<rparr>
          = Some (Inr (PyList [c]), d', rs'))"
proof -
  let ?d = "\<lparr>dq_cards = [7, 8], dq_deque = [8, 7], dq_size = 2\<rparr>"
  have e: "draw_single_card (Suc (Suc 0)) [] ?d
             = Some (Inr (PyList [8]), \<lparr>dq_cards = [7], dq_deque = [7], dq_size = 1\<rparr>, [])"
    by code_simp
  have wf: "deque_wf ?d" by (simp add: deque_wf_def)
  have sz: "(1::int) \<le> dq_size ?d" by simp
  from draw_single_card_one_element_list[of "Suc (Suc 0)" "[]" ?d 0] e wf sz
  show ?thesis by auto
qed

section \<open>Queue: removal\<close>

text \<open>
  Claim C3, as stated, says that \<open>remove(x)\<close> removes only the first occurrence of \<open>x\<close>. On
  the items 1, 2, 1 the code removes both occurrences of 1.
\<close>

theorem remove_item_all_counterexample:
  "remove_item 1 \<lparr>items = [1, 2, 1]\<rparr> = \<lparr>items = [2]\<rparr>
   \<and> remove_item_spec 1 \<lparr>items = [1, 2, 1]\<rparr> = \<lparr>items = [2, 1]\<rparr>
   \<and> remove_item 1 \<lparr>items = [1, 2, 1]\<rparr> \<noteq> remove_item_spec 1 \<lparr>items = [1, 2, 1]\<rparr>"
  by (simp add: remove_item_def remove_item_spec_def)

lemma filter_neq_remove1: "count_list xs x \<le> 1 \<Longrightarrow> [i \<leftarrow> xs. i \<noteq> x] = remove1 x xs"
proof (induction xs)
  case Nil
  show ?case by simp
next
  case (Cons a xs)
  show ?case
  proof (cases "a = x")
    case True
    with Cons.prems have "count_list xs x = 0" by simp
    then have "x \<notin> set xs" by (simp add: count_list_0_iff)
    then have "[i \<leftarrow> xs. i \<noteq> x] = xs" by (auto simp: filter_id_conv)
    with True show ?thesis by simp
  next
    case False
    with Cons show ?thesis by simp
  qed
qed

lemma count_list_filter_neq:
  "y \<noteq> x \<Longrightarrow> count_list [i \<leftarrow> xs. i \<noteq> x] y = count_list xs y"
  by (induction xs) auto

text \<open>
  Claim C3, amended: \<open>remove(x)\<close> removes every occurrence of \<open>x\<close> and keeps the other items,
  each as often as before and in their order; removing an absent value changes nothing; and
  where \<open>x\<close> occurs at most once, this is the removal of the first occurrence.
\<close>

theorem remove_item_every_occurrence:
  "item \<notin> set (items (remove_item item q))
   \<and> subseq (items (remove_item item q)) (items q)
   \<and> (\<forall>y. y \<noteq> item \<longrightarrow> count_list (items (remove_item item q)) y = count_list (items q) y)
   \<and> (item \<notin> set (items q) \<longrightarrow> remove_item item q = q)
   \<and> (count_list (items q) item \<le> 1 \<longrightarrow> remove_item item q = remove_item_spec item q)"
proof (intro conjI allI impI)
  show "item \<notin> set (items (remove_item item q))" by (simp add: remove_item_def)
  show "subseq (items (remove_item item q)) (items q)" by (simp add: remove_item_def)
  show "count_list (items (remove_item item q)) y = count_list (items q) y" if "y \<noteq> item" for y
    using that by (simp add: remove_item_def count_list_filter_neq)
  show "remove_item item q = q" if "item \<notin> set (items q)"
  proof -
    from that have "[i \<leftarrow> items q. i \<noteq> item] = items q" by (auto simp: filter_id_conv)
    then show ?thesis by (simp add: remove_item_def)
  qed
  show "remove_item item q = remove_item_spec item q" if "count_list (items q) item \<le> 1"
    using filter_neq_remove1[OF that] by (simp add: remove_item_def remove_item_spec_def)
qed

theorem remove_item_every_occurrence_witness:
  "(2::int) \<noteq> 1 \<and> count_list (items (remove_item 1 \<lparr>items = [1, 2, 1]\<rparr>)) 2 = count_list [1, 2, 1] (2::int)
   \<and> 1 \<notin> set (items (remove_item 1 \<lparr>items = [1, 2, 1]\<rparr>))
   \<and> (3::int) \<notin> set [1, 2, 1] \<and> remove_item 3 \<lparr>items = [1, 2, 1]\<rparr> = \<lparr>items = [1, 2, 1]\<rparr>
   \<and> count_list [1, 2, 1] (2::int) \<le> 1
   \<and> remove_item 2 \<lparr>items = [1, 2, 1]\<rparr> = remove_item_spec 2 \<lparr>items = [1, 2, 1]\<rparr>"
  using remove_item_every_occurrence[of 1 "\<lparr>items = [1, 2, 1]\<rparr>"]
        remove_item_every_occurrence[of 3 "\<lparr>items = [1, 2, 1]\<rparr>"]
        remove_item_every_occurrence[of 2 "\<lparr>items = [1, 2, 1]\<rparr>"]
  by simp

section \<open>Round: one Turn for each player\<close>

text \<open>
  Claim C8: if a Turn of the player exists in the round, \<open>playCard\<close> fails with
  \<open>PlayerHasAlreadyPlayed\<close> and writes nothing; if none exists, it creates the Turn, after
  which a second \<open>playCard\<close> of the same player in the same round (with any card) fails so.
\<close>

theorem Round_play_card_once:
  "(if \<exists>t \<in> set (turn_set r w). tn_player t = pid
    then Round_play_card pid cid r w = (Some PlayerHasAlreadyPlayed, w)
    else \<exists>w'. Round_play_card pid cid r w = (None, w')
           \<and> turn_set r w' = turn_set r w @ [\<lparr>tn_round = r_id r, tn_player = pid, tn_card = Some cid\<rparr>]
           \<and> Round_play_card pid cid' r w' = (Some PlayerHasAlreadyPlayed, w'))"
proof (cases "\<exists>t \<in> set (turn_set r w). tn_player t = pid")
  case True
  then have "[t \<leftarrow> turn_set r w. tn_player t = pid] \<noteq> []"
    by (simp add: filter_empty_conv)
  with True show ?thesis by (simp add: Round_play_card_def)
next
  case False
  then have e: "[t \<leftarrow> turn_set r w. tn_player t = pid] = []"
    by (simp add: filter_empty_conv)
  let ?t = "\<lparr>tn_round = r_id r, tn_player = pid, tn_card = Some cid\<rparr>"
  let ?w' = "w\<lparr>turns := turns w @ [?t]\<rparr>"
  have 1: "Round_play_card pid cid r w = (None, ?w')" using e by (simp add: Round_play_card_def)
  have 2: "turn_set r ?w' = turn_set r w @ [?t]" by (simp add: turn_set_def)
  have 3: "Round_play_card pid cid' r ?w' = (Some PlayerHasAlreadyPlayed, ?w')"
    unfolding Round_play_card_def 2 by simp
  from False 1 2 3 show ?thesis by (simp del: Round.simps)
qed

theorem Round_play_card_once_witness:
  "Round_play_card 2 112 example_round example_world = (Some PlayerHasAlreadyPlayed, example_world)
   \<and> (\<exists>w'. Round_play_card 3 121 example_round example_world = (None, w')
           \<and> turn_set example_round w'
              = [\<lparr>tn_round = 1, tn_player = 2, tn_card = Some 111\<rparr>,
                 \<lparr>tn_round = 1, tn_player = 3, tn_card = Some 121\<rparr>]
           \<and> Round_play_card 3 122 example_round w' = (Some PlayerHasAlreadyPlayed, w'))"
proof -
  have ts: "turn_set example_round example_world = [\<lparr>tn_round = 1, tn_player = 2, tn_card = Some 111\<rparr>]"
    by (simp add: turn_set_def example_round_def example_world_def)
  have r: "r_id example_round = 1" by (simp add: example_round_def)
  show ?thesis
    using Round_play_card_once[of example_round example_world 2 112]
          Round_play_card_once[of example_round example_world 3 121 122]
    by (simp add: ts r)
qed

section \<open>Game: playing and leaving\<close>

text \<open>
  Claim C2 says that the play which completes the round sets \<open>playFinish = asof\<close>,
  \<open>pickFinish = playFinish + pickPhaseLength\<close> and \<open>roundFinish = pickFinish + finishDelay\<close>.
  The code assigns \<open>round_finish = asof + FINISH_DELAY_SECONDS\<close>: when cat plays at second
  20, after bob, the round gets \<open>play_finish\<close> at second 20, \<open>pick_finish\<close> at second 320 and
  \<open>round_finish\<close> at second 21, before \<open>pick_finish\<close>.
\<close>

theorem play_card_early_advance_round_finish:
  "(case Game_play_card 3 cat 121 (seconds 20) example_game example_world of
      Inl e \<Rightarrow> None
    | Inr (g, w) \<Rightarrow> current_round g)
   = Some \<lparr>r_id = 1, card_czar = 1, black_card = 1,
            play_finish = 20000000, pick_finish = 320000000, round_finish = 21000000\<rparr>"
  by code_simp

text \<open>
  Claim C4 says that when a player who is not the czar and has a Turn in the current round
  leaves, the Turn is kept with its card set to null. Nothing in the code assigns a Turn's
  card; \<open>Round.remove_player\<close> calls \<open>turn_set.remove\<close>, and when bob, who has played, leaves
  the game, the call raises \<open>AttributeError\<close>.
\<close>

theorem remove_player_with_turn_raises:
  "remove_player 2 bob example_game example_world = Inl AttributeError"
proof -
  have "(case remove_player 2 bob example_game example_world of
           Inl e \<Rightarrow> e = AttributeError | Inr r \<Rightarrow> False)"
    by code_simp
  then show ?thesis by (simp split: sum.splits)
qed

section \<open>Player: joining the game one is in\<close>

text \<open>
  With the integer key of the player's current game, as the tests pass it, \<open>join_game\<close>
  returns at its guard and the database is as before. With a \<open>str\<close> the guard is never
  true, whatever the string.
\<close>

lemma join_game_int_key:
  "get_player_by_token token w = Inr (pid, player) \<Longrightarrow> current_game player = Some gid
     \<Longrightarrow> join_game token (IntKey gid) w = Inr w"
  by (simp add: join_game_def)

lemma join_game_str_key:
  "get_player_by_token token w = Inr (pid, player) \<Longrightarrow>
     join_game token (StrKey s) w =
       (case leave_current_game pid player w of
          Inl e \<Rightarrow> Inl e
        | Inr (player1, w1) \<Rightarrow>
            (case get_game_by_pk (StrKey s) w1 of
               Inl e \<Rightarrow> Inl e
             | Inr game \<Rightarrow>
                 (case add_player pid player1 game w1 of
                    Inl e \<Rightarrow> Inl e
                  | Inr (player2, game', w2) \<Rightarrow>
                      Inr (save_player pid player2 (save_game game' w2)))))"
  by (simp add: join_game_def split: option.splits)

text \<open>
  Claim C10 says that \<open>join_game\<close> by a player who is already a member of the target game
  raises no error and changes nothing. \<open>views.join_game\<close> passes the game's key as the
  \<open>str\<close> of the query parameter, and the guard \<open>player.current_game.id == game_id\<close> is then
  false: when cat, a member of game 5, joins game \<open>'5'\<close>, she leaves the game and is added
  again. Her row now points to the new hand 4, which holds the ten cards drawn from the white
  deck, the deck is empty, and in the rotation she moved from the head to the tail. When
  bob, who has played, does the same, the call raises \<open>AttributeError\<close>.
\<close>

theorem join_game_str_key_rejoins:
  "(case join_game ''cat'' (StrKey ''5'') example_world of
      Inl e \<Rightarrow> None
    | Inr w \<Rightarrow>
        Some (map_of (players w) 3, hand_cards w 4,
              map_option player_queue (map_of (games w) 5),
              map_option white_deque (map_of (games w) 5)))
   = Some (Some \<lparr>auth_token = ''cat'', current_game = Some 5, current_hand = Some 4,
                 score = Some 0\<rparr>,
           [131, 132, 133, 134, 135, 136, 137, 138, 139, 140],
           Some (Some \<lparr>items = [1, 2, 3]\<rparr>),
           Some (Some \<lparr>dq_cards = [], dq_deque = [], dq_size = 0\<rparr>))
   \<and> (case join_game ''bob'' (StrKey ''5'') example_world of
        Inl e \<Rightarrow> Some e
      | Inr w \<Rightarrow> None) = Some AttributeError"
  by code_simp

section \<open>Game: a winner and new rounds\<close>



lemma player_set_cong:
  "g_id g' = g_id g \<Longrightarrow> players w' = players w \<Longrightarrow> player_set g' w' = player_set g w"
  by (simp add: player_set_def)










lemma draw_cards_pool:
  "draw_cards fuel n rs d = Some (Inr cs, d', rs') \<Longrightarrow>
     mset cs \<subseteq># mset (dq_cards d) \<and> mset (dq_cards d') = mset (dq_cards d) - mset cs"
proof (induction fuel arbitrary: n rs d cs d' rs')
  case 0
  then show ?case by simp
next
  case (Suc fuel)
  from Suc.prems have le: "\<not> n > dq_size d" by (auto split: if_splits)
  show ?case
  proof (cases "int (length (dq_deque d)) > n")
    case True
    with Suc.prems le obtain d1 where cs: "cs = slice_to n (dq_deque d)"
      and r: "remove_cards cs d = Inr d1" and d': "d' = d1\<lparr>dq_deque := slice_from n (dq_deque d)\<rparr>"
      by (auto simp: Let_def split: sum.splits)
    from remove_cards_Inr(1,4)[OF r] d' show ?thesis by simp
  next
    case False
    with Suc.prems le obtain d1 where r: "remove_cards (dq_deque d) d = Inr d1"
      by (auto simp: Let_def split: sum.splits)
    obtain d2 rs2 where s: "shuffle rs d1 = (d2, rs2)" by (cases "shuffle rs d1")
    have c2: "mset (dq_cards d2) = mset (dq_cards d) - mset (dq_deque d)"
      using shuffle_spec(2)[OF s] remove_cards_Inr(1)[OF r] by simp
    have sub: "mset (dq_deque d) \<subseteq># mset (dq_cards d)" by (rule remove_cards_Inr(4)[OF r])
    show ?thesis
    proof (cases "int (length (dq_deque d)) < n")
      case True
      with Suc.prems le False r s obtain rest where
        rec: "draw_cards fuel (n - int (length (dq_deque d))) rs2 d2 = Some (Inr rest, d', rs')"
        and cs: "cs = dq_deque d @ rest"
        by (auto simp: Let_def split: option.splits sum.splits prod.splits)
      from Suc.IH[OF rec] c2 have 1: "mset rest \<subseteq># mset (dq_cards d) - mset (dq_deque d)"
        and 2: "mset (dq_cards d') = mset (dq_cards d) - mset (dq_deque d) - mset rest" by simp_all
      from 1 sub have "mset (dq_deque d) + mset rest \<subseteq># mset (dq_cards d)"
        by (metis subset_mset.add_diff_inverse subset_mset.add_le_cancel_left)
      with 2 cs show ?thesis by (simp add: diff_diff_add_mset[symmetric] del: diff_diff_add_mset)
    next
      case F2: False
      with Suc.prems le False r s have "cs = dq_deque d" "d' = d2"
        by (auto simp: Let_def)
      with c2 sub show ?thesis by simp
    qed
  qed
qed

lemma map_of_put_row: "map_of (put_row k v rows) k = Some v"
  by (induction rows) auto

section \<open>Game: joining\<close>

text \<open>
  Claim C9, as stated, says that \<open>addPlayer\<close> tops up the hand only if a round is in progress,
  so that a player joining a \<open>CREATED\<close> game with no current round is dealt no cards. When
  dan joins the new game, which stays \<open>CREATED\<close> without a round, his hand holds ten cards.
\<close>

theorem add_player_created_game_deals:
  "(case add_player 4 dan new_game example_world of
      Inl e \<Rightarrow> None
    | Inr (p, g, w) \<Rightarrow>
        Some (status g, current_round g, map_option (\<lambda>h. length (hand_cards w h)) (current_hand p)))
   = Some (CREATED, None, Some 10)"
  by code_simp

lemma all_card_ids_cong:
  "black_card_ids w' = black_card_ids w \<Longrightarrow> white_card_ids w' = white_card_ids w
     \<Longrightarrow> all_card_ids w' = all_card_ids w"
  by (simp add: all_card_ids_def)

lemma deal_cards_to_player_new_hand:
  assumes h: "current_hand p = None"
    and ok: "deal_cards_to_player pid p g w = Inr (p', g', w')"
  shows "\<exists>wd wd' drawn.
           p' = p\<lparr>current_hand := Some (next_hand_id w)\<rparr>
         \<and> white_deque g = Some wd \<and> g' = g\<lparr>white_deque := Some wd'\<rparr>
         \<and> int (length drawn) = HAND_SIZE
         \<and> mset drawn \<subseteq># mset (dq_cards wd)
         \<and> mset (dq_cards wd') = mset (dq_cards wd) - mset drawn
         \<and> hand_cards w' (next_hand_id w) = [c \<leftarrow> all_card_ids w. c \<in> set drawn]
         \<and> black_card_ids w' = black_card_ids w \<and> white_card_ids w' = white_card_ids w"
proof -
  let ?hid = "next_hand_id w"
  let ?p1 = "p\<lparr>current_hand := Some ?hid\<rparr>"
  let ?w1 = "save_player pid ?p1 (w\<lparr>hand_cards := (hand_cards w)(?hid := []), next_hand_id := ?hid + 1\<rparr>)"
  have hc: "hand_cards ?w1 ?hid = []" by (simp add: save_player_def)
  have ac: "all_card_ids ?w1 = all_card_ids w" by (simp add: all_card_ids_def save_player_def)
  from ok h obtain wd where wd: "white_deque g = Some wd"
    by (auto simp: deal_cards_to_player_def Let_def hc HAND_SIZE_def split: option.splits)
  from ok h wd obtain drawn wd' rs' where
    d: "draw_cards recursion_limit HAND_SIZE (rand ?w1) wd = Some (Inr drawn, wd', rs')"
    by (auto simp: deal_cards_to_player_def Let_def hc HAND_SIZE_def split: option.splits sum.splits)
  from ok h wd d have res: "p' = ?p1" "g' = g\<lparr>white_deque := Some wd'\<rparr>"
    "w' = ?w1\<lparr>hand_cards := (hand_cards ?w1)(?hid := [c \<leftarrow> all_card_ids ?w1. c \<in> set drawn]), rand := rs'\<rparr>"
    by (auto simp: deal_cards_to_player_def Let_def hc HAND_SIZE_def)
  from draw_cards_length[OF d] have len: "int (length drawn) = HAND_SIZE" by (simp add: HAND_SIZE_def)
  from res(3) ac have hw: "hand_cards w' ?hid = [c \<leftarrow> all_card_ids w. c \<in> set drawn]" by simp
  from res(3) have ids: "black_card_ids w' = black_card_ids w" "white_card_ids w' = white_card_ids w"
    by (simp_all add: save_player_def)
  from res(1,2) wd len draw_cards_pool[OF d] hw ids show ?thesis by blast
qed

text \<open>
  Claim C9, amended: a successful \<open>addPlayer\<close> appends the player to the rotation Queue (as
  reconciliation left it), makes the game the player's current game, sets the score to 0 and
  writes the player's row, and leaves status and current round as reconciliation left them;
  it tops up the hand whether or not a round is in progress: for a player without a hand,
  ten card ids are drawn from the white deck and the cards they name become the new hand.
\<close>

theorem add_player_deals:
  assumes ok: "add_player pid player g w = Inr (player', g', w')"
  shows "\<exists>g1 w1 q. update_state g w = Inr (g1, w1)
           \<and> player_queue g1 = Some q \<and> player_queue g' = Some (add_item pid q)
           \<and> status g' = status g1 \<and> current_round g' = current_round g1
           \<and> current_game player' = Some (g_id g) \<and> score player' = Some 0
           \<and> map_of (players w') pid = Some player'
           \<and> (current_hand player = None \<longrightarrow>
                (\<exists>hid wd wd' drawn.
                    current_hand player' = Some hid
                  \<and> white_deque g1 = Some wd \<and> white_deque g' = Some wd'
                  \<and> int (length drawn) = HAND_SIZE
                  \<and> mset drawn \<subseteq># mset (dq_cards wd)
                  \<and> mset (dq_cards wd') = mset (dq_cards wd) - mset drawn
                  \<and> hand_cards w' hid = [c \<leftarrow> all_card_ids w'. c \<in> set drawn]))"
proof -
  from ok obtain g1 w1 where u: "update_state g w = Inr (g1, w1)"
    by (auto simp: add_player_def split: sum.splits)
  from ok u obtain q where q: "player_queue g1 = Some q"
    by (auto simp: add_player_def split: if_splits option.splits)
  let ?g2 = "g1\<lparr>player_queue := Some (add_item pid q)\<rparr>"
  let ?p1 = "player\<lparr>current_game := Some (g_id g)\<rparr>"
  let ?w2 = "player_set_add pid ?g2 w1"
  from ok u q obtain p2 g3 w3 where
    d: "deal_cards_to_player pid ?p1 ?g2 ?w2 = Inr (p2, g3, w3)"
    and res: "player' = p2\<lparr>score := Some 0\<rparr>" "g' = g3" "w' = save_player pid player' w3"
    by (auto simp: add_player_def Let_def split: if_splits sum.splits)
  have keep: "player_queue g3 = player_queue ?g2 \<and> status g3 = status ?g2
      \<and> current_round g3 = current_round ?g2 \<and> current_game p2 = current_game ?p1"
    using d by (auto simp: deal_cards_to_player_def Let_def split: option.splits sum.splits if_splits)
  have m: "map_of (players w') pid = Some player'"
    using res(3) by (simp add: save_player_def map_of_put_row)
  have hand: "\<exists>hid wd wd' drawn.
                    current_hand player' = Some hid
                  \<and> white_deque g1 = Some wd \<and> white_deque g' = Some wd'
                  \<and> int (length drawn) = HAND_SIZE
                  \<and> mset drawn \<subseteq># mset (dq_cards wd)
                  \<and> mset (dq_cards wd') = mset (dq_cards wd) - mset drawn
                  \<and> hand_cards w' hid = [c \<leftarrow> all_card_ids w'. c \<in> set drawn]"
    if h: "current_hand player = None"
  proof -
    from h have h1: "current_hand ?p1 = None" by simp
    from deal_cards_to_player_new_hand[OF h1 d] obtain wd wd' drawn where
      f: "p2 = ?p1\<lparr>current_hand := Some (next_hand_id ?w2)\<rparr>"
         "white_deque ?g2 = Some wd" "g3 = ?g2\<lparr>white_deque := Some wd'\<rparr>"
         "int (length drawn) = HAND_SIZE" "mset drawn \<subseteq># mset (dq_cards wd)"
         "mset (dq_cards wd') = mset (dq_cards wd) - mset drawn"
         "hand_cards w3 (next_hand_id ?w2) = [c \<leftarrow> all_card_ids ?w2. c \<in> set drawn]"
         "black_card_ids w3 = black_card_ids ?w2" "white_card_ids w3 = white_card_ids ?w2"
      by blast
    have "all_card_ids w' = all_card_ids ?w2"
      using res(3) f(8,9) by (simp add: all_card_ids_def save_player_def)
    moreover have "hand_cards w' = hand_cards w3" using res(3) by (simp add: save_player_def)
    ultimately have hw: "hand_cards w' (next_hand_id ?w2) = [c \<leftarrow> all_card_ids w'. c \<in> set drawn]"
      using f(7) by simp
    have "current_hand player' = Some (next_hand_id ?w2)" using f(1) res(1) by simp
    moreover have "white_deque g1 = Some wd" using f(2) by simp
    moreover have "white_deque g' = Some wd'" using f(3) res(2) by simp
    ultimately show ?thesis using f(4,5,6) hw by blast
  qed
  from u q keep res m hand show ?thesis by auto
qed

theorem add_player_deals_witness:
  "(\<exists>player' g' w'. add_player 4 dan new_game example_world = Inr (player', g', w')
      \<and> player_queue g' = Some \<lparr>items = [4]\<rparr>
      \<and> status g' = CREATED \<and> current_round g' = None
      \<and> current_game player' = Some 7 \<and> score player' = Some 0
      \<and> map_of (players w') 4 = Some player'
      \<and> (\<exists>hid wd' drawn. current_hand player' = Some hid \<and> white_deque g' = Some wd'
            \<and> int (length drawn) = HAND_SIZE
            \<and> hand_cards w' hid = [c \<leftarrow> all_card_ids w'. c \<in> set drawn]))"
proof -
  have c: "(case add_player 4 dan new_game example_world of Inl e \<Rightarrow> False | Inr r \<Rightarrow> True)"
    by code_simp
  obtain r where r: "add_player 4 dan new_game example_world = Inr r"
  proof (cases "add_player 4 dan new_game example_world")
    case (Inl e)
    with c show ?thesis by simp
  next
    case (Inr r)
    then show ?thesis by (rule that)
  qed
  obtain player' g' w' where "r = (player', g', w')" by (cases r)
  with r have ok: "add_player 4 dan new_game example_world = Inr (player', g', w')" by simp
  have us: "(case update_state new_game example_world of
               Inl e \<Rightarrow> None
             | Inr (g1, w1) \<Rightarrow> Some (player_queue g1, status g1, current_round g1))
            = Some (Some \<lparr>items = []\<rparr>, CREATED, None)"
    by code_simp
  have h: "current_hand dan = None" by (simp add: dan_def)
  have gid: "g_id new_game = 7" by (simp add: new_game_def)
  from add_player_deals[OF ok] h obtain g1 w1 q where
    f: "update_state new_game example_world = Inr (g1, w1)"
       "player_queue g1 = Some q" "player_queue g' = Some (add_item 4 q)"
       "status g' = status g1" "current_round g' = current_round g1"
       "current_game player' = Some (g_id new_game)" "score player' = Some 0"
       "map_of (players w') 4 = Some player'"
       "\<exists>hid wd wd' drawn.
                    current_hand player' = Some hid
                  \<and> white_deque g1 = Some wd \<and> white_deque g' = Some wd'
                  \<and> int (length drawn) = HAND_SIZE
                  \<and> mset drawn \<subseteq># mset (dq_cards wd)
                  \<and> mset (dq_cards wd') = mset (dq_cards wd) - mset drawn
                  \<and> hand_cards w' hid = [c \<leftarrow> all_card_ids w'. c \<in> set drawn]"
    by blast
  from us f(1,2) have "q = \<lparr>items = []\<rparr>" "status g1 = CREATED" "current_round g1 = None"
    by simp_all
  with f gid ok show ?thesis by (auto simp: add_item_def)
qed

end
